theory Spec2Isabelle
  imports Main "HOL-Library.AList"
begin

section \<open>Python values\<close>

text \<open>
  The warehouse driver hands the program scalar values. A float, a \<open>Decimal\<close>, a
  \<open>datetime\<close> and a \<open>date\<close> are library objects; each is modelled by what the program
  can observe of it: its truth value, its \<open>str()\<close>, and for a \<open>Decimal\<close> the float that
  \<open>float()\<close> turns it into, for a temporal value the string \<open>isoformat()\<close> returns.
  The rounding done by \<open>float()\<close> is not modelled.
\<close>

datatype pyfloat = Float (float_nonzero: bool) (float_repr: string)

datatype decimal = Decimal (dec_nonzero: bool) (dec_str: string) (dec_float: pyfloat)

datatype pydatetime = DateTime (dt_str: string) (dt_isoformat: string)

datatype pydate = Date (date_isoformat: string)

datatype pyval =
    PNone
  | PBool bool
  | PInt int
  | PFloat pyfloat
  | PStr string
  | PDecimal decimal
  | PDateTime pydatetime
  | PDate pydate

datatype exn =
    KeyError
  | IndexError
  | TypeError
  | AttributeError
  | RetryError
  | ExternalError string

text \<open>Python's truth value of an object, as \<open>not x\<close>, \<open>x or y\<close> and \<open>if x\<close> test it.\<close>

fun truthy :: "pyval \<Rightarrow> bool" where
  "truthy PNone = False"
| "truthy (PBool b) = b"
| "truthy (PInt i) = (i \<noteq> 0)"
| "truthy (PFloat f) = float_nonzero f"
| "truthy (PStr s) = (s \<noteq> [])"
| "truthy (PDecimal d) = dec_nonzero d"
| "truthy (PDateTime t) = True"
| "truthy (PDate d) = True"

definition py_or :: "pyval \<Rightarrow> pyval \<Rightarrow> pyval" where
  "py_or a b = (if truthy a then a else b)"

text \<open>Decimal digits of a natural number, and \<open>str()\<close> of a value as an f-string inserts it.\<close>

fun digit_char :: "nat \<Rightarrow> char" where
  "digit_char n = (''0123456789'' ! (n mod 10))"

function nat_str :: "nat \<Rightarrow> string" where
  "nat_str n = (if n < 10 then [digit_char n] else nat_str (n div 10) @ [digit_char n])"
  by pat_completeness auto
termination
  by (relation "measure (\<lambda>n. n)") auto

definition int_str :: "int \<Rightarrow> string" where
  "int_str i = (if i < 0 then CHR ''-'' # nat_str (nat (- i)) else nat_str (nat i))"

fun py_str :: "pyval \<Rightarrow> string" where
  "py_str PNone = ''None''"
| "py_str (PBool b) = (if b then ''True'' else ''False'')"
| "py_str (PInt i) = int_str i"
| "py_str (PFloat f) = float_repr f"
| "py_str (PStr s) = s"
| "py_str (PDecimal d) = dec_str d"
| "py_str (PDateTime t) = dt_str t"
| "py_str (PDate d) = date_isoformat d"

text \<open>\<open>str.upper()\<close> and \<open>str.lower()\<close>, on ASCII letters (other characters are kept).\<close>

definition upper_char :: "char \<Rightarrow> char" where
  "upper_char c =
     (case map_of (zip ''abcdefghijklmnopqrstuvwxyz'' ''ABCDEFGHIJKLMNOPQRSTUVWXYZ'') c of
        Some u \<Rightarrow> u | None \<Rightarrow> c)"

definition lower_char :: "char \<Rightarrow> char" where
  "lower_char c =
     (case map_of (zip ''ABCDEFGHIJKLMNOPQRSTUVWXYZ'' ''abcdefghijklmnopqrstuvwxyz'') c of
        Some l \<Rightarrow> l | None \<Rightarrow> c)"

definition upper :: "string \<Rightarrow> string" where
  "upper s = map upper_char s"

definition lower :: "string \<Rightarrow> string" where
  "lower s = map lower_char s"

section \<open>Dictionaries\<close>

text \<open>
  A Python \<open>dict\<close> keeps its keys in insertion order: it is an association list.
  Assigning to a key that is present replaces the value in place, assigning to a new
  key appends it; that is \<open>AList.update\<close>.
\<close>

type_synonym row = "(string \<times> pyval) list"

definition dict_get :: "('k \<times> 'v) list \<Rightarrow> 'k \<Rightarrow> 'v option" where
  "dict_get d k = map_of d k"

definition dict_set :: "('k \<times> 'v) list \<Rightarrow> 'k \<Rightarrow> 'v \<Rightarrow> ('k \<times> 'v) list" where
  "dict_set d k v = AList.update k v d"

text \<open>\<open>d.update(other)\<close> and \<open>{**d, **other}\<close>: the keys of \<open>other\<close> are assigned in order.\<close>

definition dict_update :: "('k \<times> 'v) list \<Rightarrow> ('k \<times> 'v) list \<Rightarrow> ('k \<times> 'v) list" where
  "dict_update d other = foldl (\<lambda>acc (k, v). dict_set acc k v) d other"

text \<open>\<open>row.get(key)\<close>, which is \<open>None\<close> for a key that is absent.\<close>

definition row_get :: "row \<Rightarrow> string \<Rightarrow> pyval" where
  "row_get r k = (case dict_get r k of Some v \<Rightarrow> v | None \<Rightarrow> PNone)"

text \<open>
  \<open>_get(row, key)\<close> of graphdb_utils.py and metadata_extractor.py:
  \<open>row.get(key, row.get(key.upper()))\<close>.
\<close>

definition get :: "row \<Rightarrow> string \<Rightarrow> pyval" where
  "get r key = (case dict_get r key of Some v \<Rightarrow> v | None \<Rightarrow> row_get r (upper key))"

section \<open>The cache key (cache_utils.py)\<close>

text \<open>\<open>sep.join(parts)\<close>.\<close>

fun str_join :: "string \<Rightarrow> string list \<Rightarrow> string" where
  "str_join sep [] = []"
| "str_join sep [p] = p"
| "str_join sep (p # q # ps) = p @ sep @ str_join sep (q # ps)"

text \<open>
  \<open>_hash_key\<close>: the hexadecimal SHA-256 digest of the key's bytes. The digest is the
  library's; it is the parameter \<open>sha256_hex\<close>.
\<close>

definition hash_key :: "(string \<Rightarrow> string) \<Rightarrow> string \<Rightarrow> string" where
  "hash_key sha256_hex key = sha256_hex key"

text \<open>The key \<open>cached_call\<close> derives from its tuple of parts (its first two lines).\<close>

definition derived_key :: "(string \<Rightarrow> string) \<Rightarrow> string list \<Rightarrow> string" where
  "derived_key sha256_hex key_parts = hash_key sha256_hex (str_join ''|'' key_parts)"

text \<open>
  The disk cache: each entry holds its value and the time at which it expires. An entry
  is in the cache while its expiry time lies ahead.
\<close>

type_synonym 'v cache = "(string \<times> ('v \<times> int)) list"

definition cache_contains :: "'v cache \<Rightarrow> int \<Rightarrow> string \<Rightarrow> bool" where
  "cache_contains c now key = (case dict_get c key of Some (v, t) \<Rightarrow> now < t | None \<Rightarrow> False)"

definition cache_set :: "'v cache \<Rightarrow> int \<Rightarrow> string \<Rightarrow> 'v \<Rightarrow> int \<Rightarrow> 'v cache" where
  "cache_set c now key v expire = dict_set c key (v, now + expire)"

definition cached_call ::
  "(string \<Rightarrow> string) \<Rightarrow> 'v cache \<Rightarrow> int \<Rightarrow> string list \<Rightarrow> (unit \<Rightarrow> exn + 'v) \<Rightarrow> int
     \<Rightarrow> (exn + 'v) \<times> 'v cache" where
  "cached_call sha256_hex c now key_parts fn expire =
     (let key = derived_key sha256_hex key_parts in
      if cache_contains c now key then
        (case dict_get c key of
           Some (v, t) \<Rightarrow> (Inr v, c)
         | None \<Rightarrow> (Inl KeyError, c))
      else
        (case fn () of
           Inl e \<Rightarrow> (Inl e, c)
         | Inr v \<Rightarrow> (Inr v, cache_set c now key v expire)))"

section \<open>The knowledge graph (graphdb_utils.py)\<close>

text \<open>
  The \<open>networkx.DiGraph\<close> held by \<open>GraphDB\<close>: the dictionary of nodes with their
  attribute dictionaries, and the adjacency dictionary, which maps a node to the
  dictionary of its successors with the attributes of each edge. Both keep insertion
  order. Keys are compared with HOL's equality.
\<close>

type_synonym attrs = "(string \<times> pyval) list"

record digraph =
  nx_node :: "(pyval \<times> attrs) list"
  nx_adj :: "(pyval \<times> (pyval \<times> attrs) list) list"

definition empty_graph :: digraph where
  "empty_graph = \<lparr>nx_node = [], nx_adj = []\<rparr>"

text \<open>\<open>g.clear()\<close>.\<close>

definition clear :: "digraph \<Rightarrow> digraph" where
  "clear g = g\<lparr>nx_node := [], nx_adj := []\<rparr>"

text \<open>
  \<open>g.add_node(n, **attr)\<close>: a new node gets an empty attribute dictionary and an empty
  successor dictionary; \<open>None\<close> cannot be a node; then the attributes are updated.
\<close>

definition add_node :: "digraph \<Rightarrow> pyval \<Rightarrow> attrs \<Rightarrow> exn + digraph" where
  "add_node g n attr =
     (case dict_get (nx_adj g) n of
        None \<Rightarrow>
          if n = PNone then Inl (ExternalError ''None cannot be a node'')
          else Inr (g\<lparr>nx_adj := dict_set (nx_adj g) n [],
                      nx_node := dict_set (nx_node g) n (dict_update [] attr)\<rparr>)
      | Some nbrs \<Rightarrow>
          Inr (g\<lparr>nx_node := dict_set (nx_node g) n
                  (dict_update (case dict_get (nx_node g) n of Some a \<Rightarrow> a | None \<Rightarrow> []) attr)\<rparr>))"

text \<open>
  \<open>g.add_edge(u, v, **attr)\<close>: both ends are added as nodes when they are new, then the
  edge's attribute dictionary (the one already there, or a new one) is updated and stored.
\<close>

definition ensure_node :: "digraph \<Rightarrow> pyval \<Rightarrow> exn + digraph" where
  "ensure_node g n =
     (case dict_get (nx_adj g) n of
        None \<Rightarrow>
          if n = PNone then Inl (ExternalError ''None cannot be a node'')
          else Inr (g\<lparr>nx_adj := dict_set (nx_adj g) n [], nx_node := dict_set (nx_node g) n []\<rparr>)
      | Some nbrs \<Rightarrow> Inr g)"

definition add_edge :: "digraph \<Rightarrow> pyval \<Rightarrow> pyval \<Rightarrow> attrs \<Rightarrow> exn + digraph" where
  "add_edge g u v attr =
     (case ensure_node g u of
        Inl e \<Rightarrow> Inl e
      | Inr g1 \<Rightarrow>
          (case ensure_node g1 v of
             Inl e \<Rightarrow> Inl e
           | Inr g2 \<Rightarrow>
               (let nbrs = (case dict_get (nx_adj g2) u of Some d \<Rightarrow> d | None \<Rightarrow> []);
                    datadict = (case dict_get nbrs v of Some d \<Rightarrow> d | None \<Rightarrow> [])
                in Inr (g2\<lparr>nx_adj := dict_set (nx_adj g2) u
                                  (dict_set nbrs v (dict_update datadict attr))\<rparr>))))"

text \<open>\<open>g.edges(data=True)\<close>: the edges, source by source.\<close>

definition edges :: "digraph \<Rightarrow> (pyval \<times> pyval \<times> attrs) list" where
  "edges g = concat (map (\<lambda>(u, nbrs). map (\<lambda>(v, d). (u, v, d)) nbrs) (nx_adj g))"

text \<open>The body of the first loop of \<open>build_from_metadata\<close>, for one table row.\<close>

definition add_table_row :: "digraph \<Rightarrow> row \<Rightarrow> exn + digraph" where
  "add_table_row g t =
     (let db = get t ''database_name'';
          schema = get t ''schema_name'';
          table = get t ''table_name''
      in if \<not> truthy db \<or> \<not> truthy schema \<or> \<not> truthy table then Inr g
         else
           (let schema_id = py_str db @ ''.'' @ py_str schema;
                table_id = py_str db @ ''.'' @ py_str schema @ ''.'' @ py_str table
            in case add_node g db [(''label'', PStr ''Database''), (''name'', db)] of
                 Inl e \<Rightarrow> Inl e
               | Inr g1 \<Rightarrow>
            (case add_node g1 (PStr schema_id) [(''label'', PStr ''Schema''), (''name'', schema)] of
                 Inl e \<Rightarrow> Inl e
               | Inr g2 \<Rightarrow>
            (case add_node g2 (PStr table_id)
                    [(''label'', PStr ''Table''), (''name'', table),
                     (''row_count'', get t ''row_count'')] of
                 Inl e \<Rightarrow> Inl e
               | Inr g3 \<Rightarrow>
            (case add_edge g3 db (PStr schema_id) [(''type'', PStr ''CONTAINS'')] of
                 Inl e \<Rightarrow> Inl e
               | Inr g4 \<Rightarrow>
                 add_edge g4 (PStr schema_id) (PStr table_id) [(''type'', PStr ''CONTAINS'')])))))"

text \<open>The body of the second loop, for one column row.\<close>

definition add_column_row :: "digraph \<Rightarrow> row \<Rightarrow> exn + digraph" where
  "add_column_row g c =
     (let db = get c ''database_name'';
          schema = get c ''schema_name'';
          table = get c ''table_name'';
          column = get c ''column_name'';
          data_type = get c ''data_type''
      in if \<not> truthy db \<or> \<not> truthy schema \<or> \<not> truthy table \<or> \<not> truthy column then Inr g
         else
           (let table_id = py_str db @ ''.'' @ py_str schema @ ''.'' @ py_str table;
                col_id = table_id @ ''.'' @ py_str column
            in case add_node g (PStr col_id)
                      [(''label'', PStr ''Column''), (''name'', column), (''data_type'', data_type)] of
                 Inl e \<Rightarrow> Inl e
               | Inr g1 \<Rightarrow>
                 add_edge g1 (PStr table_id) (PStr col_id) [(''type'', PStr ''HAS_COLUMN'')]))"

text \<open>A \<open>for\<close> loop whose body may raise: it stops at the first exception.\<close>

fun for_each :: "('s \<Rightarrow> 'a \<Rightarrow> exn + 's) \<Rightarrow> 's \<Rightarrow> 'a list \<Rightarrow> exn + 's" where
  "for_each body s [] = Inr s"
| "for_each body s (x # xs) =
     (case body s x of Inl e \<Rightarrow> Inl e | Inr s' \<Rightarrow> for_each body s' xs)"

definition build_from_metadata :: "digraph \<Rightarrow> row list \<Rightarrow> row list \<Rightarrow> exn + digraph" where
  "build_from_metadata g tables columns =
     (case for_each add_table_row (clear g) tables of
        Inl e \<Rightarrow> Inl e
      | Inr g1 \<Rightarrow> for_each add_column_row g1 columns)"

text \<open>\<open>needle in haystack\<close> on strings.\<close>

fun contains :: "string \<Rightarrow> string \<Rightarrow> bool" where
  "contains [] needle = (needle = [])"
| "contains (c # cs) needle = (take (length needle) (c # cs) = needle \<or> contains cs needle)"

text \<open>
  \<open>search\<close>: the loop over the nodes in the graph's order. An identity that is not a
  string has no \<open>lower()\<close>. The length test comes after the append, in every round.
\<close>

fun search_loop ::
  "(pyval \<times> attrs) list \<Rightarrow> string \<Rightarrow> int \<Rightarrow> (pyval \<times> attrs) list \<Rightarrow> exn + (pyval \<times> attrs) list" where
  "search_loop [] keyword_lower max_results matches = Inr matches"
| "search_loop ((node_id, data) # rest) keyword_lower max_results matches =
     (let name = lower (py_str (case dict_get data ''name'' of Some v \<Rightarrow> v | None \<Rightarrow> PStr ''''));
          hit = (if contains name keyword_lower then Inr True
                 else case node_id of
                        PStr s \<Rightarrow> Inr (contains (lower s) keyword_lower)
                      | _ \<Rightarrow> Inl AttributeError)
      in case hit of
           Inl e \<Rightarrow> Inl e
         | Inr h \<Rightarrow>
             (let matches' = (if h then matches @ [(node_id, data)] else matches)
              in if max_results \<le> int (length matches') then Inr matches'
                 else search_loop rest keyword_lower max_results matches'))"

definition search :: "digraph \<Rightarrow> string \<Rightarrow> int \<Rightarrow> exn + (pyval \<times> attrs) list" where
  "search g keyword max_results = search_loop (nx_node g) (lower keyword) max_results []"

section \<open>Retrieval and generation (config.py, rag_pipeline.py)\<close>

text \<open>The field of \<open>AppConfig\<close> that the pipeline reads.\<close>

record app_config =
  default_top_k :: int

text \<open>A parsed JSON document, and the dictionaries \<open>generate_sql_and_insight\<close> returns.\<close>

datatype json =
    JNull
  | JBool bool
  | JInt int
  | JFloat pyfloat
  | JStr string
  | JArr "json list"
  | JObj "(string \<times> json) list"

text \<open>
  What lies outside the program: the Chroma collection, the persisted graph file, the
  chat-completion endpoint, and the library functions \<open>json.loads\<close> and \<open>repr\<close> of a
  dictionary.
  \<^item> \<open>get_collection\<close>: the exception \<open>get_chroma_collection()\<close> raises, if any;
  \<^item> \<open>chroma_query texts n\<close>: the \<open>documents\<close> entry of the query's result (\<open>None\<close> when the
    result has no such key), or the exception raised;
  \<^item> \<open>chroma_upsert\<close>: the exception an upsert request raises, if any;
  \<^item> \<open>graph_file\<close>: the graph \<open>load_local\<close> reads, \<open>None\<close> when the file is missing or
    unreadable;
  \<^item> \<open>chat_completion k sys usr\<close>: the outcome of the \<open>k\<close>-th attempt of the completion
    request, the message content (which may be \<open>None\<close>) or an exception;
  \<^item> \<open>json_loads\<close>: the parsed document, \<open>None\<close> when parsing raises.
\<close>

type_synonym upsert_request = "string list \<times> row list \<times> string list"

record rag_env =
  get_collection :: "exn option"
  chroma_query :: "string list \<Rightarrow> int \<Rightarrow> exn + (string list list) option"
  chroma_upsert :: "upsert_request \<Rightarrow> exn option"
  graph_file :: "digraph option"
  dict_repr :: "attrs \<Rightarrow> string"
  chat_completion :: "nat \<Rightarrow> string \<Rightarrow> string \<Rightarrow> exn + string option"
  json_loads :: "string \<Rightarrow> json option"

record document =
  doc_id :: string
  doc_text :: string
  doc_metadata :: "row option"

text \<open>The slice \<open>xs[i:j]\<close> for \<open>0 \<le> i \<le> j\<close>.\<close>

definition slice :: "'a list \<Rightarrow> nat \<Rightarrow> nat \<Rightarrow> 'a list" where
  "slice xs i j = take (j - i) (drop i xs)"

text \<open>
  The loop of \<open>upsert_docs_to_chroma\<close> over \<open>range(0, len(ids), batch_size)\<close>. It returns
  the count, or the exception of the request that failed, and the requests issued.
\<close>

function upsert_loop ::
  "(upsert_request \<Rightarrow> exn option) \<Rightarrow> string list \<Rightarrow> row list \<Rightarrow> string list \<Rightarrow> nat \<Rightarrow> nat
     \<Rightarrow> int \<Rightarrow> upsert_request list \<Rightarrow> (exn + int) \<times> upsert_request list" where
  "upsert_loop upsert ids metadatas contents batch_size i count issued =
     (if batch_size = 0 then (Inl (ExternalError ''range() arg 3 must not be zero''), issued)
      else if i < length ids then
        (let req = (slice ids i (i + batch_size), slice metadatas i (i + batch_size),
                    slice contents i (i + batch_size))
         in case upsert req of
              Some e \<Rightarrow> (Inl e, issued @ [req])
            | None \<Rightarrow>
                upsert_loop upsert ids metadatas contents batch_size (i + batch_size)
                  (count + int (length (slice ids i (i + batch_size)))) (issued @ [req]))
      else (Inr count, issued))"
  by pat_completeness auto
termination
  by (relation "measure (\<lambda>(upsert, ids, metadatas, contents, batch_size, i, count, issued). length ids - i)")
    auto

declare upsert_loop.simps [simp del]

definition upsert_docs_to_chroma ::
  "rag_env \<Rightarrow> document list \<Rightarrow> (exn + int) \<times> upsert_request list" where
  "upsert_docs_to_chroma env docs =
     (case get_collection env of
        Some e \<Rightarrow> (Inl e, [])
      | None \<Rightarrow>
          (let ids = map doc_id docs;
               metadatas = map (\<lambda>d. case doc_metadata d of Some m \<Rightarrow> m | None \<Rightarrow> []) docs;
               contents = map doc_text docs
           in upsert_loop (chroma_upsert env) ids metadatas contents 100 0 0 []))"

text \<open>\<open>retrieve_context_from_vector\<close>: \<open>res.get("documents", [[]])[0]\<close>.\<close>

definition retrieve_context_from_vector :: "rag_env \<Rightarrow> string \<Rightarrow> int \<Rightarrow> exn + string list" where
  "retrieve_context_from_vector env question top_k =
     (case get_collection env of
        Some e \<Rightarrow> Inl e
      | None \<Rightarrow>
          (case chroma_query env [question] top_k of
             Inl e \<Rightarrow> Inl e
           | Inr res \<Rightarrow>
               (case (case res of Some ds \<Rightarrow> ds | None \<Rightarrow> [[]]) of
                  [] \<Rightarrow> Inl IndexError
                | documents # others \<Rightarrow> Inr documents)))"

text \<open>\<open>load_local\<close>: the graph of the file, or the empty graph.\<close>

definition load_local :: "rag_env \<Rightarrow> digraph" where
  "load_local env = (case graph_file env of Some g \<Rightarrow> g | None \<Rightarrow> empty_graph)"

definition retrieve_from_graph :: "rag_env \<Rightarrow> string \<Rightarrow> int \<Rightarrow> exn + string list" where
  "retrieve_from_graph env keyword max_results =
     (case search (load_local env) keyword max_results of
        Inl e \<Rightarrow> Inl e
      | Inr matches \<Rightarrow>
          Inr (map (\<lambda>(node_id, props).
                 ''Graph match: '' @ py_str node_id @ '' props='' @ dict_repr env props) matches))"

text \<open>
  \<open>llm_complete\<close>: the request is attempted up to three times; the third failure raises
  \<open>RetryError\<close>. A missing message content is the empty string.
\<close>

definition llm_attempt :: "rag_env \<Rightarrow> nat \<Rightarrow> string \<Rightarrow> string \<Rightarrow> exn + string" where
  "llm_attempt env k system_prompt user_prompt =
     (case chat_completion env k system_prompt user_prompt of
        Inl e \<Rightarrow> Inl e
      | Inr content \<Rightarrow> Inr (case content of Some s \<Rightarrow> s | None \<Rightarrow> ''''))"

definition llm_complete :: "rag_env \<Rightarrow> string \<Rightarrow> string \<Rightarrow> exn + string" where
  "llm_complete env system_prompt user_prompt =
     (case llm_attempt env 0 system_prompt user_prompt of
        Inr s \<Rightarrow> Inr s
      | Inl e0 \<Rightarrow>
          (case llm_attempt env 1 system_prompt user_prompt of
             Inr s \<Rightarrow> Inr s
           | Inl e1 \<Rightarrow>
               (case llm_attempt env 2 system_prompt user_prompt of
                  Inr s \<Rightarrow> Inr s
                | Inl e2 \<Rightarrow> Inl RetryError)))"

definition build_system_prompt :: string where
  "build_system_prompt =
     ''You are an expert data analyst working with a Snowflake data warehouse. '' @
     ''Given database metadata context and a business question, produce: '' @
     ''1) a concise business insight in simple English, 2) one Snowflake SQL query to answer it, '' @
     ''3) suggested chart type. Only generate valid Snowflake SQL; NEVER drop or modify data.''"

definition newline :: string where
  "newline = [CHR 0x0A]"

definition build_user_prompt :: "string \<Rightarrow> string list \<Rightarrow> string" where
  "build_user_prompt question context_snippets =
     (let context_text = str_join (newline @ newline) (take 12 context_snippets)
      in ''METADATA CONTEXT:'' @ newline @ context_text @ newline @ newline @
         ''QUESTION:'' @ newline @ question @ newline @ newline @
         ''Respond in JSON with keys: insight, sql, chart_type (one of line, bar, area, scatter, table).'')"

definition pick_context :: "app_config \<Rightarrow> rag_env \<Rightarrow> string \<Rightarrow> exn + string list" where
  "pick_context cfg env question =
     (case retrieve_context_from_vector env question (default_top_k cfg) of
        Inl e \<Rightarrow> Inl e
      | Inr vctx \<Rightarrow>
          if 3 \<le> length vctx then Inr vctx
          else
            (case retrieve_from_graph env question (default_top_k cfg) of
               Inl e \<Rightarrow> Inl e
             | Inr gctx \<Rightarrow> Inr (if gctx \<noteq> [] then gctx else vctx)))"

text \<open>The closure \<open>_compute\<close> of \<open>generate_sql_and_insight\<close>.\<close>

definition compute :: "app_config \<Rightarrow> rag_env \<Rightarrow> string \<Rightarrow> exn + json" where
  "compute cfg env question =
     (case pick_context cfg env question of
        Inl e \<Rightarrow> Inl e
      | Inr context_snippets \<Rightarrow>
          (case llm_complete env build_system_prompt (build_user_prompt question context_snippets) of
             Inl e \<Rightarrow> Inl e
           | Inr response \<Rightarrow>
               (let data = (case json_loads env response of
                              Some d \<Rightarrow> d
                            | None \<Rightarrow> JObj [(''insight'', JStr response), (''sql'', JNull),
                                             (''chart_type'', JStr ''table'')])
                in case data of
                     JObj kvs \<Rightarrow> Inr (JObj (dict_set kvs ''context'' (JArr (map JStr context_snippets))))
                   | _ \<Rightarrow> Inl TypeError)))"

definition generate_sql_and_insight ::
  "(string \<Rightarrow> string) \<Rightarrow> app_config \<Rightarrow> rag_env \<Rightarrow> json cache \<Rightarrow> int \<Rightarrow> string
     \<Rightarrow> (exn + json) \<times> json cache" where
  "generate_sql_and_insight sha256_hex cfg env c now question =
     cached_call sha256_hex c now [''qa'', question] (\<lambda>u. compute cfg env question) 1800"

section \<open>Concrete surroundings, for the worked instances\<close>

text \<open>
  An environment whose vector index answers every query with the first \<open>n\<close> of the
  documents \<open>hits\<close>, whose graph file holds \<open>g\<close>, whose completion endpoint replies
  \<open>reply\<close>, and whose upsert requests all succeed.
\<close>

definition example_env :: "string list \<Rightarrow> digraph option \<Rightarrow> string \<Rightarrow> rag_env" where
  "example_env hits g reply =
     \<lparr>get_collection = None,
      chroma_query = (\<lambda>texts n. Inr (Some [take (nat n) hits])),
      chroma_upsert = (\<lambda>req. None),
      graph_file = g,
      dict_repr = (\<lambda>props. ''{..}''),
      chat_completion = (\<lambda>k system_prompt user_prompt. Inr (Some reply)),
      json_loads = (\<lambda>s. if s = ''{}'' then Some (JObj []) else None)\<rparr>"

definition example_config :: app_config where
  "example_config = \<lparr>default_top_k = 8\<rparr>"

definition revenue_graph :: digraph where
  "revenue_graph =
     \<lparr>nx_node = [(PStr ''DB'', [(''label'', PStr ''Database''), (''name'', PStr ''DB'')]),
                 (PStr ''DB.PUBLIC.REVENUE'', [(''label'', PStr ''Table''), (''name'', PStr ''REVENUE'')])],
      nx_adj = [(PStr ''DB'', []), (PStr ''DB.PUBLIC.REVENUE'', [])]\<rparr>"

section \<open>Cache keys: what the pipe-joined key separates\<close>

lemma split_at_sep:
  assumes "c \<notin> set x" "c \<notin> set y" "x @ c # r = y @ c # s"
  shows "x = y \<and> r = s"
  using assms
proof (induction x arbitrary: y)
  case Nil
  then show ?case by (cases y) auto
next
  case (Cons a x)
  then show ?case by (cases y) auto
qed

lemma str_join_inj:
  assumes "length k1 = length k2"
    and "\<forall>p\<in>set k1 \<union> set k2. c \<notin> set p"
    and "str_join [c] k1 = str_join [c] k2"
  shows "k1 = k2"
  using assms
proof (induction k1 k2 rule: list_induct2)
  case Nil
  then show ?case by simp
next
  case (Cons x xs y ys)
  show ?case
  proof (cases xs)
    case Nil
    with Cons show ?thesis by simp
  next
    case xs: (Cons a as)
    with Cons.hyps obtain b bs where ys: "ys = b # bs" by (cases ys) auto
    from Cons.prems xs ys have eq: "x @ c # str_join [c] xs = y @ c # str_join [c] ys"
      by simp
    from Cons.prems have "c \<notin> set x" "c \<notin> set y" by auto
    from split_at_sep[OF this eq] have "x = y" "str_join [c] xs = str_join [c] ys" by auto
    moreover from Cons.prems have "\<forall>p\<in>set xs \<union> set ys. c \<notin> set p" by auto
    ultimately show ?thesis using Cons.IH by simp
  qed
qed

text \<open>
  C2 (as stated, refuted): two distinct key tuples can derive the same cache key whatever
  the digest is, because the parts are joined with \<open>|\<close> and a part may itself hold
  a \<open>|\<close>: the tuples \<open>("a|b",)\<close> and \<open>("a", "b")\<close> both join to \<open>a|b\<close>.
\<close>

theorem cache_key_collision: 
  "[''a|b''] \<noteq> [''a'', ''b''] \<and> (\<forall>sha. derived_key sha [''a|b''] = derived_key sha [''a'', ''b''])"
  by (simp add: derived_key_def hash_key_def)

text \<open>
  C2 (amended): equal key tuples always derive the same cache key. Under a collision-free
  digest two tuples derive the same key exactly when their pipe-joined strings are equal;
  so two distinct tuples with the same number of parts, none of which holds the
  separator \<open>|\<close>, derive different keys.
\<close>

theorem cache_key_separation:
  "(k1 = k2 \<longrightarrow> derived_key sha k1 = derived_key sha k2) \<and>
   (inj sha \<longrightarrow>
      (derived_key sha k1 = derived_key sha k2) = (str_join ''|'' k1 = str_join ''|'' k2)) \<and>
   (inj sha \<and> length k1 = length k2 \<and> (\<forall>p\<in>set k1 \<union> set k2. CHR ''|'' \<notin> set p) \<and> k1 \<noteq> k2 \<longrightarrow>
      derived_key sha k1 \<noteq> derived_key sha k2)"
proof -
  have same: "k1 = k2 \<longrightarrow> derived_key sha k1 = derived_key sha k2"
    by simp
  have iff: "(derived_key sha k1 = derived_key sha k2) = (str_join ''|'' k1 = str_join ''|'' k2)"
    if "inj sha"
    unfolding derived_key_def hash_key_def by (rule inj_eq [OF that])
  have apart: "derived_key sha k1 \<noteq> derived_key sha k2"
    if i: "inj sha" and l: "length k1 = length k2"
      and n: "\<forall>p\<in>set k1 \<union> set k2. CHR ''|'' \<notin> set p" and d: "k1 \<noteq> k2"
  proof
    assume "derived_key sha k1 = derived_key sha k2"
    then have "str_join ''|'' k1 = str_join ''|'' k2"
      using iff [OF i] by (rule iffD1 [rotated])
    then have "k1 = k2"
      by (rule str_join_inj [OF l n])
    with d show False ..
  qed
  from same iff apart show ?thesis by blast
qed

theorem cache_key_separation_witness:
  "inj (\<lambda>s::string. s) \<and>
   derived_key (\<lambda>s. s) [''qa'', ''revenue''] = derived_key (\<lambda>s. s) [''qa'', ''revenue''] \<and>
   derived_key (\<lambda>s. s) [''qa'', ''revenue''] \<noteq> derived_key (\<lambda>s. s) [''qa'', ''orders'']"
  using cache_key_separation[of "[''qa'', ''revenue'']" "[''qa'', ''revenue'']" "\<lambda>s. s"]
    cache_key_separation[of "[''qa'', ''revenue'']" "[''qa'', ''orders'']" "\<lambda>s. s"]
  by (simp add: inj_def)

section \<open>The context selector\<close>

text \<open>
  C1: whenever the vector query returns the documents \<open>vctx\<close>, \<open>pick_context\<close> returns
  \<open>vctx\<close> itself when it holds at least 3 documents; when it holds fewer than 3 and the
  graph keyword search for the same question (asked for up to \<open>default_top_k\<close> matches)
  returns a non-empty list, that list; and when it holds fewer than 3 and the graph search
  returns the empty list, \<open>vctx\<close> again.
\<close>

theorem pick_context_policy:
  assumes "retrieve_context_from_vector env q (default_top_k cfg) = Inr vctx"
  shows "(3 \<le> length vctx \<longrightarrow> pick_context cfg env q = Inr vctx) \<and>
         (length vctx < 3 \<and> retrieve_from_graph env q (default_top_k cfg) = Inr gctx \<and> gctx \<noteq> []
            \<longrightarrow> pick_context cfg env q = Inr gctx) \<and>
         (length vctx < 3 \<and> retrieve_from_graph env q (default_top_k cfg) = Inr []
            \<longrightarrow> pick_context cfg env q = Inr vctx)"
  using assms by (simp add: pick_context_def)

theorem pick_context_policy_witness:
  "pick_context example_config (example_env [''d1'', ''d2'', ''d3''] None []) ''revenue''
     = Inr [''d1'', ''d2'', ''d3''] \<and>
   pick_context example_config (example_env [''d1'', ''d2''] (Some revenue_graph) []) ''revenue''
     = Inr [''Graph match: DB.PUBLIC.REVENUE props={..}''] \<and>
   pick_context example_config (example_env [''d1'', ''d2''] None []) ''revenue''
     = Inr [''d1'', ''d2'']"
proof -
  let ?cfg = example_config
  let ?e1 = "example_env [''d1'', ''d2'', ''d3''] None []"
  let ?e2 = "example_env [''d1'', ''d2''] (Some revenue_graph) []"
  let ?e3 = "example_env [''d1'', ''d2''] None []"
  have v1: "retrieve_context_from_vector ?e1 ''revenue'' (default_top_k ?cfg) = Inr [''d1'', ''d2'', ''d3'']"
    by (simp add: retrieve_context_from_vector_def example_env_def example_config_def)
  have v2: "retrieve_context_from_vector ?e2 ''revenue'' (default_top_k ?cfg) = Inr [''d1'', ''d2'']"
    by (simp add: retrieve_context_from_vector_def example_env_def example_config_def)
  have v3: "retrieve_context_from_vector ?e3 ''revenue'' (default_top_k ?cfg) = Inr [''d1'', ''d2'']"
    by (simp add: retrieve_context_from_vector_def example_env_def example_config_def)
  have g2: "retrieve_from_graph ?e2 ''revenue'' (default_top_k ?cfg)
              = Inr [''Graph match: DB.PUBLIC.REVENUE props={..}'']"
    by (simp add: retrieve_from_graph_def load_local_def search_def example_env_def
        example_config_def revenue_graph_def lower_def lower_char_def dict_get_def)
  have g3: "retrieve_from_graph ?e3 ''revenue'' (default_top_k ?cfg) = Inr []"
    by (simp add: retrieve_from_graph_def load_local_def search_def example_env_def
        example_config_def empty_graph_def)
  have l1: "3 \<le> length [''d1'', ''d2'', ''d3'']" by simp
  have l2: "length [''d1'', ''d2''] < 3" by simp
  have n2: "[''Graph match: DB.PUBLIC.REVENUE props={..}''] \<noteq> []" by simp
  from pick_context_policy [OF v1] l1
  have a: "pick_context ?cfg ?e1 ''revenue'' = Inr [''d1'', ''d2'', ''d3'']" by blast
  from pick_context_policy [OF v2, of "[''Graph match: DB.PUBLIC.REVENUE props={..}'']"] l2 g2 n2
  have b: "pick_context ?cfg ?e2 ''revenue'' = Inr [''Graph match: DB.PUBLIC.REVENUE props={..}'']"
    by blast
  from pick_context_policy [OF v3] l2 g3
  have c: "pick_context ?cfg ?e3 ''revenue'' = Inr [''d1'', ''d2'']" by blast
  from a b c show ?thesis by blast
qed
section \<open>The cached synthesizer\<close>

lemma cached_call_miss:
  assumes "\<not> cache_contains c now (derived_key sha parts)"
  shows "fst (cached_call sha c now parts fn expire) = fn ()"
  using assms by (simp add: cached_call_def Let_def split: sum.splits)

lemma compute_degraded:
  assumes "pick_context cfg env q = Inr ctx"
    and "llm_complete env build_system_prompt (build_user_prompt q ctx) = Inr response"
    and "json_loads env response = None"
  shows "compute cfg env q =
           Inr (JObj [(''insight'', JStr response), (''sql'', JNull),
                      (''chart_type'', JStr ''table''), (''context'', JArr (map JStr ctx))])"
  using assms by (simp add: compute_def dict_set_def)

text \<open>
  C6: when the question is not answered from the cache, the context selector returns
  \<open>ctx\<close>, the generation call returns \<open>response\<close> and \<open>json.loads\<close> raises on it,
  \<open>generate_sql_and_insight\<close> does not raise: it returns the dictionary with \<open>insight\<close>
  the raw response, \<open>sql\<close> null, \<open>chart_type\<close> \<open>"table"\<close>, and the context used.
\<close>

theorem generate_degrades_on_parse_failure:
  assumes "\<not> cache_contains c now (derived_key sha [''qa'', q])"
    and "pick_context cfg env q = Inr ctx"
    and "llm_complete env build_system_prompt (build_user_prompt q ctx) = Inr response"
    and "json_loads env response = None"
  shows "fst (generate_sql_and_insight sha cfg env c now q) =
           Inr (JObj [(''insight'', JStr response), (''sql'', JNull),
                      (''chart_type'', JStr ''table''), (''context'', JArr (map JStr ctx))])"
  unfolding generate_sql_and_insight_def
  by (simp only: cached_call_miss [OF assms(1)] compute_degraded [OF assms(2-4)])

theorem generate_degrades_on_parse_failure_witness:
  "fst (generate_sql_and_insight (\<lambda>s. s) example_config
          (example_env [''d1'', ''d2'', ''d3''] None ''not json'') [] 0 ''revenue'') =
     Inr (JObj [(''insight'', JStr ''not json''), (''sql'', JNull), (''chart_type'', JStr ''table''),
                (''context'', JArr [JStr ''d1'', JStr ''d2'', JStr ''d3''])])"
proof -
  let ?env = "example_env [''d1'', ''d2'', ''d3''] None ''not json''"
  have miss: "\<not> cache_contains ([] :: json cache) 0 (derived_key (\<lambda>s. s) [''qa'', ''revenue''])"
    by (simp add: cache_contains_def dict_get_def)
  have ctx: "pick_context example_config ?env ''revenue'' = Inr [''d1'', ''d2'', ''d3'']"
    by (simp add: pick_context_def retrieve_context_from_vector_def example_env_def
        example_config_def)
  have reply: "llm_complete ?env build_system_prompt
                 (build_user_prompt ''revenue'' [''d1'', ''d2'', ''d3'']) = Inr ''not json''"
    by (simp add: llm_complete_def llm_attempt_def example_env_def)
  have bad: "json_loads ?env ''not json'' = None"
    by (simp add: example_env_def)
  from generate_degrades_on_parse_failure [OF miss ctx reply bad]
  show ?thesis by simp
qed
section \<open>Upserting the corpus\<close>

lemma upsert_loop_unfold:
  assumes "0 < bs"
  shows "upsert_loop up ids ms cs bs i count issued =
     (if i < length ids then
        (case up (slice ids i (i + bs), slice ms i (i + bs), slice cs i (i + bs)) of
           Some e \<Rightarrow>
             (Inl e, issued @ [(slice ids i (i + bs), slice ms i (i + bs), slice cs i (i + bs))])
         | None \<Rightarrow>
             upsert_loop up ids ms cs bs (i + bs) (count + int (length (slice ids i (i + bs))))
               (issued @ [(slice ids i (i + bs), slice ms i (i + bs), slice cs i (i + bs))]))
      else (Inr count, issued))"
  using assms by (subst upsert_loop.simps) (simp add: Let_def)

lemma slice_length:
  "i < length xs \<Longrightarrow> int (length (slice xs i (i + bs))) + int (length xs - (i + bs)) = int (length xs - i)"
  by (simp add: slice_def min_def)

lemma slice_append_drop: "slice xs i (i + bs) @ drop (i + bs) xs = drop i xs"
proof -
  have "take bs (drop i xs) @ drop bs (drop i xs) = drop i xs"
    by (rule append_take_drop_id)
  then show ?thesis by (simp add: slice_def add.commute)
qed

lemma upsert_loop_count:
  assumes "0 < bs"
    and "upsert_loop up ids ms cs bs i count issued = (Inr n, log)"
  shows "n = count + int (length ids - i)"
  using assms
proof (induction up ids ms cs bs i count issued rule: upsert_loop.induct)
  case (1 up ids ms cs bs i count issued)
  note unf = upsert_loop_unfold [OF "1.prems"(1), of up ids ms cs i count issued]
  show ?case
  proof (cases "i < length ids")
    case False
    with "1.prems"(2) unf show ?thesis by simp
  next
    case True
    let ?req = "(slice ids i (i + bs), slice ms i (i + bs), slice cs i (i + bs))"
    from True "1.prems"(2) unf have ok: "up ?req = None"
      by (cases "up ?req") simp_all
    with True "1.prems"(2) unf have
      "upsert_loop up ids ms cs bs (i + bs) (count + int (length (slice ids i (i + bs)))) (issued @ [?req]) = (Inr n, log)"
      by simp
    from "1.IH" [OF _ True refl ok "1.prems"(1) this] "1.prems"(1)
    have "n = count + int (length (slice ids i (i + bs))) + int (length ids - (i + bs))"
      by simp
    with slice_length [OF True, of bs] show ?thesis by simp
  qed
qed

lemma upsert_loop_all_ok:
  assumes "0 < bs" and "\<forall>req. up req = None"
  shows "\<exists>log. upsert_loop up ids ms cs bs i count issued = (Inr (count + int (length ids - i)), log) \<and>
           concat (map fst log) = concat (map fst issued) @ drop i ids \<and>
           (\<forall>req\<in>set log - set issued. fst req \<noteq> [] \<and> length (fst req) \<le> bs)"
  using assms
proof (induction up ids ms cs bs i count issued rule: upsert_loop.induct)
  case (1 up ids ms cs bs i count issued)
  note unf = upsert_loop_unfold [OF "1.prems"(1), of up ids ms cs i count issued]
  show ?case
  proof (cases "i < length ids")
    case False
    with unf show ?thesis by simp
  next
    case True
    let ?req = "(slice ids i (i + bs), slice ms i (i + bs), slice cs i (i + bs))"
    from "1.prems" have ok: "up ?req = None" by simp
    from "1.IH" [OF _ True refl ok "1.prems"] "1.prems"(1)
    obtain log where
      l: "upsert_loop up ids ms cs bs (i + bs) (count + int (length (slice ids i (i + bs)))) (issued @ [?req])
           = (Inr (count + int (length (slice ids i (i + bs))) + int (length ids - (i + bs))), log)"
      and c: "concat (map fst log) = concat (map fst (issued @ [?req])) @ drop (i + bs) ids"
      and b: "\<forall>req\<in>set log - set (issued @ [?req]). fst req \<noteq> [] \<and> length (fst req) \<le> bs"
      by blast
    have step: "upsert_loop up ids ms cs bs i count issued =
                upsert_loop up ids ms cs bs (i + bs) (count + int (length (slice ids i (i + bs)))) (issued @ [?req])"
      using True ok unf by simp
    have cnt: "count + int (length (slice ids i (i + bs))) + int (length ids - (i + bs)) = count + int (length ids - i)"
      using slice_length [OF True, of bs] by simp
    have r1: "upsert_loop up ids ms cs bs i count issued = (Inr (count + int (length ids - i)), log)"
      using step l cnt by simp
    have r2: "concat (map fst log) = concat (map fst issued) @ drop i ids"
      using c slice_append_drop [of ids i bs] by simp
    have req: "fst ?req \<noteq> [] \<and> length (fst ?req) \<le> bs"
      using True "1.prems"(1) by (simp add: slice_def)
    have r3: "\<forall>req\<in>set log - set issued. fst req \<noteq> [] \<and> length (fst req) \<le> bs"
    proof
      fix q assume q: "q \<in> set log - set issued"
      show "fst q \<noteq> [] \<and> length (fst q) \<le> bs"
      proof (cases "q = ?req")
        case True
        with req show ?thesis by simp
      next
        case False
        with q have "q \<in> set log - set (issued @ [?req])" by simp
        with b show ?thesis by blast
      qed
    qed
    from r1 r2 r3 show ?thesis by blast
  qed
qed

definition example_doc :: "string \<Rightarrow> document" where
  "example_doc name = \<lparr>doc_id = ''table::'' @ name, doc_text = ''Table '' @ name, doc_metadata = None\<rparr>"

text \<open>
  C10: the count \<open>upsert_docs_to_chroma\<close> returns is the number of documents passed in.
  When the collection is obtained and every upsert request succeeds, it returns that
  count, the identifiers of the requests issued are, in order, the identifiers of the
  documents, and each request holds between 1 and 100 of them; whenever it returns a
  count at all, the count is the number of documents; and for the empty list it returns
  0 and issues no request.
\<close>

theorem upsert_returns_document_count:
  "(get_collection env = None \<and> (\<forall>req. chroma_upsert env req = None) \<longrightarrow>
      fst (upsert_docs_to_chroma env docs) = Inr (int (length docs)) \<and>
      concat (map fst (snd (upsert_docs_to_chroma env docs))) = map doc_id docs \<and>
      (\<forall>req\<in>set (snd (upsert_docs_to_chroma env docs)). fst req \<noteq> [] \<and> length (fst req) \<le> 100)) \<and>
   (fst (upsert_docs_to_chroma env docs) = Inr n \<longrightarrow> n = int (length docs)) \<and>
   (get_collection env = None \<longrightarrow> upsert_docs_to_chroma env [] = (Inr 0, []))"
proof (intro conjI impI)
  assume a: "get_collection env = None \<and> (\<forall>req. chroma_upsert env req = None)"
  let ?ids = "map doc_id docs"
  let ?ms = "map (\<lambda>d. case doc_metadata d of Some m \<Rightarrow> m | None \<Rightarrow> []) docs"
  let ?cs = "map doc_text docs"
  from a have ok: "\<forall>req. chroma_upsert env req = None" by simp
  from upsert_loop_all_ok [of 100 "chroma_upsert env" ?ids ?ms ?cs 0 0 "[]", OF _ ok]
  obtain log where
    l: "upsert_loop (chroma_upsert env) ?ids ?ms ?cs 100 0 0 [] = (Inr (int (length docs)), log)"
    and c: "concat (map fst log) = ?ids"
    and b: "\<forall>req\<in>set log. fst req \<noteq> [] \<and> length (fst req) \<le> 100"
    by auto
  from a l have r: "upsert_docs_to_chroma env docs = (Inr (int (length docs)), log)"
    by (simp add: upsert_docs_to_chroma_def Let_def)
  show "fst (upsert_docs_to_chroma env docs) = Inr (int (length docs))"
    by (simp add: r)
  show "concat (map fst (snd (upsert_docs_to_chroma env docs))) = map doc_id docs"
    by (simp add: r c)
  show "\<forall>req\<in>set (snd (upsert_docs_to_chroma env docs)). fst req \<noteq> [] \<and> length (fst req) \<le> 100"
    using b by (simp add: r)
next
  assume r: "fst (upsert_docs_to_chroma env docs) = Inr n"
  show "n = int (length docs)"
  proof (cases "get_collection env")
    case (Some e)
    with r show ?thesis by (simp add: upsert_docs_to_chroma_def)
  next
    case None
    let ?res = "upsert_loop (chroma_upsert env) (map doc_id docs)
                  (map (\<lambda>d. case doc_metadata d of Some m \<Rightarrow> m | None \<Rightarrow> []) docs)
                  (map doc_text docs) 100 0 0 []"
    from None r have "fst ?res = Inr n"
      by (simp add: upsert_docs_to_chroma_def Let_def)
    then have "?res = (Inr n, snd ?res)"
      by (metis prod.collapse)
    from upsert_loop_count [OF _ this] show ?thesis by simp
  qed
next
  assume "get_collection env = None"
  then show "upsert_docs_to_chroma env [] = (Inr 0, [])"
    by (simp add: upsert_docs_to_chroma_def upsert_loop_unfold)
qed

theorem upsert_returns_document_count_witness:
  "upsert_docs_to_chroma (example_env [] None []) [example_doc ''ORDERS'', example_doc ''ITEMS'']
     = (Inr 2, [([''table::ORDERS'', ''table::ITEMS''], [[], []], [''Table ORDERS'', ''Table ITEMS''])]) \<and>
   fst (upsert_docs_to_chroma (example_env [] None []) (replicate 250 (example_doc ''ORDERS''))) = Inr 250 \<and>
   upsert_docs_to_chroma (example_env [] None []) [] = (Inr 0, [])"
proof -
  let ?env = "example_env [] None []"
  let ?two = "[example_doc ''ORDERS'', example_doc ''ITEMS'']"
  let ?many = "replicate 250 (example_doc ''ORDERS'')"
  have g: "get_collection ?env = None"
    by (simp add: example_env_def)
  have u: "\<forall>req. chroma_upsert ?env req = None"
    by (simp add: example_env_def)
  have two: "upsert_docs_to_chroma ?env ?two
     = (Inr 2, [([''table::ORDERS'', ''table::ITEMS''], [[], []], [''Table ORDERS'', ''Table ITEMS''])])"
    by (simp add: upsert_docs_to_chroma_def example_env_def example_doc_def upsert_loop_unfold
        slice_def)
  from upsert_returns_document_count [of ?env ?many] g u
  have "fst (upsert_docs_to_chroma ?env ?many) = Inr (int (length ?many))"
    by blast
  then have many: "fst (upsert_docs_to_chroma ?env ?many) = Inr 250"
    by (simp only: length_replicate of_nat_numeral)
  from upsert_returns_document_count [of ?env] g
  have none: "upsert_docs_to_chroma ?env [] = (Inr 0, [])"
    by blast
  from two many none show ?thesis by blast
qed
end
